theory Spec2Isabelle
  imports Main "HOL-Library.Word"
begin

unbundle bit_operations_syntax

section \<open>Digests of the crypto library\<close>

text \<open>
  The services call \<^verbatim>\<open>createHash('sha256')\<close> and \<^verbatim>\<open>createHmac('sha256', secret)\<close>
  of the runtime's crypto library. Both are written out here after FIPS 180-4 and
  RFC 2104, over 32-bit words. A string is the list of the bytes of its UTF-8 encoding.
\<close>

type_synonym u32 = "32 word"

definition K256 :: "u32 list" where
  "K256 = [
  1116352408, 1899447441, 3049323471, 3921009573, 961987163, 1508970993, 2453635748, 2870763221,
  3624381080, 310598401, 607225278, 1426881987, 1925078388, 2162078206, 2614888103, 3248222580,
  3835390401, 4022224774, 264347078, 604807628, 770255983, 1249150122, 1555081692, 1996064986,
  2554220882, 2821834349, 2952996808, 3210313671, 3336571891, 3584528711, 113926993, 338241895,
  666307205, 773529912, 1294757372, 1396182291, 1695183700, 1986661051, 2177026350, 2456956037,
  2730485921, 2820302411, 3259730800, 3345764771, 3516065817, 3600352804, 4094571909, 275423344,
  430227734, 506948616, 659060556, 883997877, 958139571, 1322822218, 1537002063, 1747873779,
  1955562222, 2024104815, 2227730452, 2361852424, 2428436474, 2756734187, 3204031479, 3329325298]"

definition H256 :: "u32 list" where
  "H256 = [1779033703, 3144134277, 1013904242, 2773480762,
           1359893119, 2600822924, 528734635, 1541459225]"

definition rotr :: "nat \<Rightarrow> u32 \<Rightarrow> u32" where
  "rotr n x = drop_bit n x OR push_bit (32 - n) x"

definition ssig0 :: "u32 \<Rightarrow> u32" where
  "ssig0 x = rotr 7 x XOR rotr 18 x XOR drop_bit 3 x"

definition ssig1 :: "u32 \<Rightarrow> u32" where
  "ssig1 x = rotr 17 x XOR rotr 19 x XOR drop_bit 10 x"

definition bsig0 :: "u32 \<Rightarrow> u32" where
  "bsig0 x = rotr 2 x XOR rotr 13 x XOR rotr 22 x"

definition bsig1 :: "u32 \<Rightarrow> u32" where
  "bsig1 x = rotr 6 x XOR rotr 11 x XOR rotr 25 x"

definition ch :: "u32 \<Rightarrow> u32 \<Rightarrow> u32 \<Rightarrow> u32" where
  "ch x y z = (x AND y) XOR (NOT x AND z)"

definition maj :: "u32 \<Rightarrow> u32 \<Rightarrow> u32 \<Rightarrow> u32" where
  "maj x y z = (x AND y) XOR (x AND z) XOR (y AND z)"

text \<open>The message schedule; the list holds the words made so far, the latest first.\<close>

fun schedule :: "nat \<Rightarrow> u32 list \<Rightarrow> u32 list" where
  "schedule 0 ws = ws"
| "schedule (Suc n) ws =
     schedule n ((ssig1 (ws ! 1) + ws ! 6 + ssig0 (ws ! 14) + ws ! 15) # ws)"

fun rounds :: "u32 list \<Rightarrow> u32 list \<Rightarrow> u32 list \<Rightarrow> u32 list" where
  "rounds (k # ks) (w # ws) [a, b, c, d, e, f, g, h] =
     (let t1 = h + bsig1 e + ch e f g + k + w;
          t2 = bsig0 a + maj a b c
      in rounds ks ws [t1 + t2, a, b, c, d + t1, e, f, g])"
| "rounds _ _ s = s"

fun be32 :: "char list \<Rightarrow> u32 list" where
  "be32 (a # b # c # d # r) =
     (push_bit 24 (of_char a) OR push_bit 16 (of_char b) OR push_bit 8 (of_char c) OR of_char d)
       # be32 r"
| "be32 _ = []"

definition compress :: "u32 list \<Rightarrow> u32 list \<Rightarrow> u32 list" where
  "compress hs blk = map2 (+) hs (rounds K256 (rev (schedule 48 (rev blk))) hs)"

fun blocks :: "u32 list \<Rightarrow> u32 list list" where
  "blocks [] = []"
| "blocks xs = take 16 xs # blocks (drop 16 xs)"

definition pad :: "char list \<Rightarrow> char list" where
  "pad m = m @ char_of (128 :: nat) # replicate ((119 - length m mod 64) mod 64) (char_of (0 :: nat))
             @ map (\<lambda>i. char_of (drop_bit (8 * i) (8 * int (length m)))) [7, 6, 5, 4, 3, 2, 1, 0]"

definition sha256 :: "char list \<Rightarrow> u32 list" where
  "sha256 m = foldl compress H256 (blocks (be32 (pad m)))"

definition bytes32 :: "u32 \<Rightarrow> char list" where
  "bytes32 w = map (\<lambda>i. char_of (uint (drop_bit (8 * i) w))) [3, 2, 1, 0]"

definition sha256_bytes :: "char list \<Rightarrow> char list" where
  "sha256_bytes m = concat (map bytes32 (sha256 m))"

definition hexdigit :: "nat \<Rightarrow> char" where
  "hexdigit n = (if n mod 16 < 10 then char_of (48 + n mod 16) else char_of (87 + n mod 16))"

definition hex_byte :: "char \<Rightarrow> string" where
  "hex_byte c = [hexdigit (of_char c div 16), hexdigit (of_char c mod 16)]"

definition hex :: "char list \<Rightarrow> string" where
  "hex bs = concat (map hex_byte bs)"

definition sha256_hex :: "string \<Rightarrow> string" where
  "sha256_hex m = hex (sha256_bytes m)"

definition xor_byte :: "nat \<Rightarrow> char \<Rightarrow> char" where
  "xor_byte p c = char_of (of_char c XOR p)"

definition hmac_key :: "char list \<Rightarrow> char list" where
  "hmac_key k =
     (let k' = (if length k > 64 then sha256_bytes k else k)
      in k' @ replicate (64 - length k') (char_of (0 :: nat)))"

definition hmac_sha256 :: "char list \<Rightarrow> char list \<Rightarrow> char list" where
  "hmac_sha256 k m =
     sha256_bytes (map (xor_byte 0x5c) (hmac_key k)
        @ sha256_bytes (map (xor_byte 0x36) (hmac_key k) @ m))"

section \<open>JSON text\<close>

text \<open>
  \<^verbatim>\<open>JSON.stringify\<close> and \<^verbatim>\<open>JSON.parse\<close> of the runtime, on the values the
  services pass: null, booleans, integers, strings, arrays and objects. An object is the
  list of its properties in enumeration order; a property whose value is undefined is
  not in the list (see \<open>omit_undefined\<close> below). Numbers are integers; a fraction or an
  exponent in a text is outside this model and \<open>JSON_parse\<close> answers \<open>None\<close> for it, as
  it does for a text the runtime rejects with a SyntaxError. An escape
  \<^verbatim>\<open>\uXXXX\<close> is decoded to the UTF-8 bytes of its code point; surrogates are outside
  the model.
\<close>

datatype json = JNull | JBool bool | JNum int | JStr string
  | JArr "json list" | JObj "(string \<times> json) list"

abbreviation dquote :: char where "dquote \<equiv> CHR 0x22"
abbreviation backslash :: char where "backslash \<equiv> CHR 0x5C"

definition digit_char :: "nat \<Rightarrow> char" where
  "digit_char n = char_of (48 + n mod 10)"

fun digits :: "nat \<Rightarrow> string" where
  "digits n = (if n < 10 then [digit_char n] else digits (n div 10) @ [digit_char n])"

declare digits.simps [simp del]

definition number_string :: "int \<Rightarrow> string" where
  "number_string i = (if i < 0 then CHR ''-'' # digits (nat (- i)) else digits (nat i))"

definition escape_char :: "char \<Rightarrow> string" where
  "escape_char c =
     (if c = dquote then [backslash, dquote]
      else if c = backslash then [backslash, backslash]
      else if c = CHR 0x08 then [backslash, CHR ''b'']
      else if c = CHR 0x0C then [backslash, CHR ''f'']
      else if c = CHR 0x0A then [backslash, CHR ''n'']
      else if c = CHR 0x0D then [backslash, CHR ''r'']
      else if c = CHR 0x09 then [backslash, CHR ''t'']
      else if of_char c < (32 :: nat)
        then [backslash, CHR ''u'', CHR ''0'', CHR ''0'',
              hexdigit (of_char c div 16), hexdigit (of_char c)]
      else [c])"

definition quote :: "string \<Rightarrow> string" where
  "quote s = dquote # concat (map escape_char s) @ [dquote]"

fun JSON_stringify :: "json \<Rightarrow> string"
  and stringify_elems :: "json list \<Rightarrow> string"
  and stringify_members :: "(string \<times> json) list \<Rightarrow> string" where
  "JSON_stringify JNull = ''null''"
| "JSON_stringify (JBool b) = (if b then ''true'' else ''false'')"
| "JSON_stringify (JNum i) = number_string i"
| "JSON_stringify (JStr s) = quote s"
| "JSON_stringify (JArr xs) = CHR ''['' # stringify_elems xs @ '']''"
| "JSON_stringify (JObj kvs) = CHR ''{'' # stringify_members kvs @ ''}''"
| "stringify_elems [] = []"
| "stringify_elems [x] = JSON_stringify x"
| "stringify_elems (x # y # ys) = JSON_stringify x @ CHR '','' # stringify_elems (y # ys)"
| "stringify_members [] = []"
| "stringify_members [(k, v)] = quote k @ CHR '':'' # JSON_stringify v"
| "stringify_members ((k, v) # m # ms) =
     quote k @ CHR '':'' # JSON_stringify v @ CHR '','' # stringify_members (m # ms)"

definition is_ws :: "char \<Rightarrow> bool" where
  "is_ws c = (c = CHR '' '' \<or> c = CHR 0x09 \<or> c = CHR 0x0A \<or> c = CHR 0x0D)"

definition skip_ws :: "string \<Rightarrow> string" where
  "skip_ws s = dropWhile is_ws s"

definition is_digit :: "char \<Rightarrow> bool" where
  "is_digit c = (48 \<le> (of_char c :: nat) \<and> (of_char c :: nat) \<le> 57)"

fun parse_digits :: "nat \<Rightarrow> string \<Rightarrow> nat \<times> string" where
  "parse_digits acc [] = (acc, [])"
| "parse_digits acc (c # r) =
     (if is_digit c then parse_digits (10 * acc + (of_char c - 48)) r else (acc, c # r))"

definition parse_nat :: "string \<Rightarrow> (nat \<times> string) option" where
  "parse_nat s =
     (case s of
        [] \<Rightarrow> None
      | c # r \<Rightarrow>
          if c = CHR ''0'' then
            (case r of [] \<Rightarrow> Some (0, []) | d # _ \<Rightarrow> if is_digit d then None else Some (0, r))
          else if is_digit c then Some (parse_digits 0 s)
          else None)"

definition no_fraction :: "string \<Rightarrow> bool" where
  "no_fraction r = (case r of [] \<Rightarrow> True | c # _ \<Rightarrow> c \<noteq> CHR ''.'' \<and> c \<noteq> CHR ''e'' \<and> c \<noteq> CHR ''E'')"

definition parse_number :: "string \<Rightarrow> (int \<times> string) option" where
  "parse_number s =
     (case s of
        [] \<Rightarrow> None
      | c # r \<Rightarrow>
          (case (if c = CHR ''-'' then map_option (\<lambda>(n, r'). (- int n, r')) (parse_nat r)
                 else map_option (\<lambda>(n, r'). (int n, r')) (parse_nat s)) of
             None \<Rightarrow> None
           | Some (i, r') \<Rightarrow> if no_fraction r' then Some (i, r') else None))"

definition hexval :: "char \<Rightarrow> nat option" where
  "hexval c =
     (let n = (of_char c :: nat) in
      if 48 \<le> n \<and> n \<le> 57 then Some (n - 48)
      else if 97 \<le> n \<and> n \<le> 102 then Some (n - 87)
      else if 65 \<le> n \<and> n \<le> 70 then Some (n - 55)
      else None)"

fun hex4 :: "string \<Rightarrow> nat option" where
  "hex4 [a, b, c, d] =
     (case (hexval a, hexval b, hexval c, hexval d) of
        (Some x, Some y, Some z, Some w) \<Rightarrow> Some (((x * 16 + y) * 16 + z) * 16 + w)
      | _ \<Rightarrow> None)"
| "hex4 _ = None"

definition utf8 :: "nat \<Rightarrow> string option" where
  "utf8 n =
     (if n < 128 then Some [char_of n]
      else if n < 2048 then Some [char_of (192 + n div 64), char_of (128 + n mod 64)]
      else if 55296 \<le> n \<and> n < 57344 then None
      else Some [char_of (224 + n div 4096), char_of (128 + n div 64 mod 64),
                 char_of (128 + n mod 64)])"

definition unescape :: "char \<Rightarrow> char option" where
  "unescape e =
     (if e = dquote then Some dquote
      else if e = backslash then Some backslash
      else if e = CHR ''/'' then Some CHR ''/''
      else if e = CHR ''b'' then Some (CHR 0x08)
      else if e = CHR ''f'' then Some (CHR 0x0C)
      else if e = CHR ''n'' then Some (CHR 0x0A)
      else if e = CHR ''r'' then Some (CHR 0x0D)
      else if e = CHR ''t'' then Some (CHR 0x09)
      else None)"

fun parse_string :: "string \<Rightarrow> (string \<times> string) option" where
  "parse_string [] = None"
| "parse_string (c # r) =
     (if c = dquote then Some ([], r)
      else if c = backslash then
        (case r of
           [] \<Rightarrow> None
         | e # r' \<Rightarrow>
             if e = CHR ''u'' then
               (case hex4 (take 4 r') of
                  None \<Rightarrow> None
                | Some n \<Rightarrow>
                    (case utf8 n of
                       None \<Rightarrow> None
                     | Some bs \<Rightarrow>
                         (case parse_string (drop 4 r') of
                            None \<Rightarrow> None
                          | Some (s, rest) \<Rightarrow> Some (bs @ s, rest))))
             else
               (case unescape e of
                  None \<Rightarrow> None
                | Some x \<Rightarrow>
                    (case parse_string r' of
                       None \<Rightarrow> None
                     | Some (s, rest) \<Rightarrow> Some (x # s, rest))))
      else if of_char c < (32 :: nat) then None
      else
        (case parse_string r of
           None \<Rightarrow> None
         | Some (s, rest) \<Rightarrow> Some (c # s, rest)))"

fun parse_value :: "nat \<Rightarrow> string \<Rightarrow> (json \<times> string) option"
  and parse_elems :: "nat \<Rightarrow> string \<Rightarrow> (json list \<times> string) option"
  and parse_members :: "nat \<Rightarrow> string \<Rightarrow> ((string \<times> json) list \<times> string) option" where
  "parse_value 0 s = None"
| "parse_value (Suc n) s =
     (let t = skip_ws s in
      if take 4 t = ''null'' then Some (JNull, drop 4 t)
      else if take 4 t = ''true'' then Some (JBool True, drop 4 t)
      else if take 5 t = ''false'' then Some (JBool False, drop 5 t)
      else
        (case t of
           [] \<Rightarrow> None
         | c # r \<Rightarrow>
             if c = dquote then
               (case parse_string r of None \<Rightarrow> None | Some (x, r') \<Rightarrow> Some (JStr x, r'))
             else if c = CHR ''['' then
               (case skip_ws r of
                  [] \<Rightarrow> None
                | d # r' \<Rightarrow>
                    if d = CHR '']'' then Some (JArr [], r')
                    else (case parse_elems n r of
                            None \<Rightarrow> None
                          | Some (xs, r'') \<Rightarrow> Some (JArr xs, r'')))
             else if c = CHR ''{'' then
               (case skip_ws r of
                  [] \<Rightarrow> None
                | d # r' \<Rightarrow>
                    if d = CHR ''}'' then Some (JObj [], r')
                    else (case parse_members n r of
                            None \<Rightarrow> None
                          | Some (kvs, r'') \<Rightarrow> Some (JObj kvs, r'')))
             else
               (case parse_number t of None \<Rightarrow> None | Some (i, r') \<Rightarrow> Some (JNum i, r'))))"
| "parse_elems 0 s = None"
| "parse_elems (Suc n) s =
     (case parse_value n s of
        None \<Rightarrow> None
      | Some (v, r) \<Rightarrow>
          (case skip_ws r of
             [] \<Rightarrow> None
           | c # r' \<Rightarrow>
               if c = CHR '','' then
                 (case parse_elems n r' of
                    None \<Rightarrow> None
                  | Some (vs, r'') \<Rightarrow> Some (v # vs, r''))
               else if c = CHR '']'' then Some ([v], r')
               else None))"
| "parse_members 0 s = None"
| "parse_members (Suc n) s =
     (case skip_ws s of
        [] \<Rightarrow> None
      | c # r \<Rightarrow>
          if c \<noteq> dquote then None
          else
            (case parse_string r of
               None \<Rightarrow> None
             | Some (k, r1) \<Rightarrow>
                 (case skip_ws r1 of
                    [] \<Rightarrow> None
                  | c1 # r2 \<Rightarrow>
                      if c1 \<noteq> CHR '':'' then None
                      else
                        (case parse_value n r2 of
                           None \<Rightarrow> None
                         | Some (v, r3) \<Rightarrow>
                             (case skip_ws r3 of
                                [] \<Rightarrow> None
                              | c3 # r4 \<Rightarrow>
                                  if c3 = CHR '','' then
                                    (case parse_members n r4 of
                                       None \<Rightarrow> None
                                     | Some (kvs, r5) \<Rightarrow> Some ((k, v) # kvs, r5))
                                  else if c3 = CHR ''}'' then Some ([(k, v)], r4)
                                  else None)))))"

definition JSON_parse :: "string \<Rightarrow> json option" where
  "JSON_parse s =
     (case parse_value (Suc (length s)) s of
        None \<Rightarrow> None
      | Some (v, r) \<Rightarrow> if skip_ws r = [] then Some v else None)"



lemma hexval_hexdigit: "n < 16 \<Longrightarrow> hexval (hexdigit n) = Some n"
  by (simp add: hexval_def hexdigit_def Let_def)

lemma hex4_control:
  assumes "n < 32"
  shows "hex4 [CHR ''0'', CHR ''0'', hexdigit (n div 16), hexdigit n] = Some n"
proof -
  have a: "hexval (hexdigit (n div 16)) = Some (n div 16)"
    using assms by (intro hexval_hexdigit) simp
  have "hexdigit n = hexdigit (n mod 16)" by (simp add: hexdigit_def)
  then have b: "hexval (hexdigit n) = Some (n mod 16)"
    by (simp add: hexval_hexdigit)
  have c: "hexval CHR ''0'' = Some 0" by (simp add: hexval_def)
  show ?thesis by (simp add: a b c)
qed


lemma parse_string_dquote: "parse_string (dquote # r) = Some ([], r)"
  by simp

lemma parse_string_plain:
  "c \<noteq> dquote \<Longrightarrow> c \<noteq> backslash \<Longrightarrow> \<not> of_char c < (32 :: nat) \<Longrightarrow>
   parse_string (c # r) =
     (case parse_string r of None \<Rightarrow> None | Some (s, rest) \<Rightarrow> Some (c # s, rest))"
  by simp

lemma parse_string_short:
  "e \<noteq> CHR ''u'' \<Longrightarrow> unescape e = Some x \<Longrightarrow>
   parse_string (backslash # e # r) =
     (case parse_string r of None \<Rightarrow> None | Some (s, rest) \<Rightarrow> Some (x # s, rest))"
  by simp

lemma parse_string_unicode:
  "hex4 [a, b, c, d] = Some n \<Longrightarrow> utf8 n = Some bs \<Longrightarrow>
   parse_string (backslash # CHR ''u'' # a # b # c # d # r) =
     (case parse_string r of None \<Rightarrow> None | Some (s, rest) \<Rightarrow> Some (bs @ s, rest))"
  by simp

declare parse_string.simps [simp del]

lemma parse_string_escape_char:
  "parse_string (escape_char c @ r) =
     (case parse_string r of None \<Rightarrow> None | Some (s, rest) \<Rightarrow> Some (c # s, rest))"
proof -
  consider (q) "c = dquote" | (b) "c = backslash"
    | (s) "c \<in> {CHR 0x08, CHR 0x0C, CHR 0x0A, CHR 0x0D, CHR 0x09}"
    | (u) "of_char c < (32 :: nat)" "c \<notin> {CHR 0x08, CHR 0x0C, CHR 0x0A, CHR 0x0D, CHR 0x09}"
    | (p) "c \<noteq> dquote" "c \<noteq> backslash" "\<not> of_char c < (32 :: nat)"
    by blast
  then show ?thesis
  proof cases
    case q
    then show ?thesis
      by (simp add: escape_char_def parse_string_short unescape_def split: option.splits)
  next
    case b
    then show ?thesis
      by (simp add: escape_char_def parse_string_short unescape_def split: option.splits)
  next
    case s
    then have "escape_char c = [backslash, CHR ''b''] \<and> unescape CHR ''b'' = Some c
      \<or> escape_char c = [backslash, CHR ''f''] \<and> unescape CHR ''f'' = Some c
      \<or> escape_char c = [backslash, CHR ''n''] \<and> unescape CHR ''n'' = Some c
      \<or> escape_char c = [backslash, CHR ''r''] \<and> unescape CHR ''r'' = Some c
      \<or> escape_char c = [backslash, CHR ''t''] \<and> unescape CHR ''t'' = Some c"
      by (auto simp: escape_char_def unescape_def)
    then show ?thesis
      by (elim disjE conjE) (simp_all add: parse_string_short)
  next
    case u
    have "c \<noteq> dquote" "c \<noteq> backslash" using u(1) by auto
    with u have e: "escape_char c = [backslash, CHR ''u'', CHR ''0'', CHR ''0'',
              hexdigit (of_char c div 16), hexdigit (of_char c)]"
      by (simp add: escape_char_def)
    have v: "utf8 (of_char c) = Some [c]" using u(1) by (simp add: utf8_def)
    have "parse_string (backslash # CHR ''u'' # CHR ''0'' # CHR ''0''
            # hexdigit (of_char c div 16) # hexdigit (of_char c) # r) =
          (case parse_string r of None \<Rightarrow> None | Some (s, rest) \<Rightarrow> Some ([c] @ s, rest))"
      by (rule parse_string_unicode [OF hex4_control [OF u(1)] v])
    then show ?thesis by (simp add: e split: option.splits)
  next
    case p
    then have "escape_char c = [c]"
      by (auto simp: escape_char_def)
    then show ?thesis using p by (simp add: parse_string_plain split: option.splits)
  qed
qed

lemma parse_string_quote:
  "parse_string (concat (map escape_char s) @ dquote # rest) = Some (s, rest)"
  by (induction s) (simp_all add: parse_string_escape_char parse_string_dquote)


lemma is_digit_digit_char: "is_digit (digit_char n)"
  by (simp add: is_digit_def digit_char_def)

lemma of_char_digit_char: "of_char (digit_char n) - 48 = n mod 10"
  by (simp add: digit_char_def)

definition delim :: "string \<Rightarrow> bool" where
  "delim r = (case r of [] \<Rightarrow> True | c # _ \<Rightarrow> c = CHR '','' \<or> c = CHR '']'' \<or> c = CHR ''}'')"

lemma parse_digits_delim: "delim r \<Longrightarrow> parse_digits acc r = (acc, r)"
  by (cases r) (auto simp: delim_def is_digit_def)

lemma parse_digits_digits:
  "parse_digits acc (digits n @ r) = parse_digits (acc * 10 ^ length (digits n) + n) r"
proof (induction n arbitrary: acc r rule: digits.induct)
  case (1 n)
  show ?case
  proof (cases "n < 10")
    case True
    then show ?thesis
      by (simp add: digits.simps [of n] is_digit_digit_char of_char_digit_char mult.commute)
  next
    case False
    have "parse_digits acc (digits n @ r) =
          parse_digits acc (digits (n div 10) @ digit_char n # r)"
      using False by (simp add: digits.simps [of n])
    also have "\<dots> = parse_digits (acc * 10 ^ length (digits (n div 10)) + n div 10) (digit_char n # r)"
      using False by (simp add: "1.IH")
    also have "\<dots> = parse_digits (10 * (acc * 10 ^ length (digits (n div 10)) + n div 10) + n mod 10) r"
      by (simp add: is_digit_digit_char of_char_digit_char)
    also have "10 * (acc * 10 ^ length (digits (n div 10)) + n div 10) + n mod 10
             = acc * 10 ^ length (digits n) + n"
      using False by (simp add: digits.simps [of n] algebra_simps)
    finally show ?thesis .
  qed
qed

lemma digits_head:
  "\<exists>c cs. digits n = c # cs \<and> is_digit c \<and> (0 < n \<longrightarrow> c \<noteq> CHR ''0'')"
proof (induction n rule: digits.induct)
  case (1 n)
  show ?case
  proof (cases "n < 10")
    case True
    have "0 < n \<Longrightarrow> digit_char n \<noteq> CHR ''0''"
      using True by (auto simp: digit_char_def dest: arg_cong [where f = "of_char :: char \<Rightarrow> nat"])
    then show ?thesis
      using True by (simp add: digits.simps [of n] is_digit_digit_char)
  next
    case False
    then obtain c cs where "digits (n div 10) = c # cs" "is_digit c" "c \<noteq> CHR ''0''"
      using "1.IH" by auto
    then show ?thesis
      using False by (simp add: digits.simps [of n])
  qed
qed

lemma digits_zero: "digits 0 = ''0''"
proof -
  have "(of_char (char_of (48 :: nat)) :: nat) = of_char CHR ''0''" by simp
  then have "char_of (48 :: nat) = CHR ''0''" by (simp only: of_char_eq_iff)
  then show ?thesis by (simp add: digits.simps [of 0] digit_char_def)
qed

lemma parse_nat_digits:
  assumes "delim r"
  shows "parse_nat (digits n @ r) = Some (n, r)"
proof (cases "n = 0")
  case True
  show ?thesis
    using assms unfolding True digits_zero
    by (cases r) (auto simp: parse_nat_def delim_def is_digit_def)
next
  case False
  obtain c cs where d: "digits n = c # cs" "is_digit c" "c \<noteq> CHR ''0''"
    using digits_head [of n] False by auto
  have "parse_nat (digits n @ r) = Some (parse_digits 0 (digits n @ r))"
    using d by (simp add: parse_nat_def)
  then show ?thesis
    by (simp add: parse_digits_digits parse_digits_delim [OF assms])
qed

lemma no_fraction_delim: "delim r \<Longrightarrow> no_fraction r"
  by (cases r) (auto simp: delim_def no_fraction_def)

lemma parse_number_number_string:
  assumes "delim r"
  shows "parse_number (number_string i @ r) = Some (i, r)"
proof (cases "i < 0")
  case True
  then show ?thesis
    by (simp add: parse_number_def number_string_def parse_nat_digits [OF assms]
        no_fraction_delim [OF assms])
next
  case False
  obtain c cs where d: "digits (nat i) = c # cs" "is_digit c"
    using digits_head [of "nat i"] by auto
  then have "c \<noteq> CHR ''-''" by (auto simp: is_digit_def)
  moreover have "parse_nat (c # cs @ r) = Some (nat i, r)"
    using parse_nat_digits [OF assms, of "nat i"] d by simp
  ultimately show ?thesis
    using False d by (simp add: parse_number_def number_string_def no_fraction_delim [OF assms])
qed


definition start_char :: "char \<Rightarrow> bool" where
  "start_char c = (c = CHR ''n'' \<or> c = CHR ''t'' \<or> c = CHR ''f'' \<or> c = dquote
     \<or> c = CHR ''['' \<or> c = CHR ''{'' \<or> c = CHR ''-'' \<or> is_digit c)"

lemma skip_ws_start: "start_char c \<Longrightarrow> skip_ws (c # s) = c # s"
  by (auto simp: skip_ws_def is_ws_def start_char_def is_digit_def)

lemma skip_ws_punct:
  "c = CHR '','' \<or> c = CHR '']'' \<or> c = CHR ''}'' \<or> c = CHR '':'' \<Longrightarrow> skip_ws (c # s) = c # s"
  by (auto simp: skip_ws_def is_ws_def)

lemma parse_value_null: "parse_value (Suc n) (''null'' @ r) = Some (JNull, r)"
  by (simp add: skip_ws_def is_ws_def)

lemma parse_value_true: "parse_value (Suc n) (''true'' @ r) = Some (JBool True, r)"
  by (simp add: skip_ws_def is_ws_def)

lemma parse_value_false: "parse_value (Suc n) (''false'' @ r) = Some (JBool False, r)"
  by (simp add: skip_ws_def is_ws_def)

lemma parse_value_string:
  "parse_value (Suc n) (dquote # s) =
     (case parse_string s of None \<Rightarrow> None | Some (x, r') \<Rightarrow> Some (JStr x, r'))"
  by (simp add: skip_ws_def is_ws_def)

lemma parse_value_array_empty: "parse_value (Suc n) (CHR ''['' # CHR '']'' # r) = Some (JArr [], r)"
  by (simp add: skip_ws_def is_ws_def)

lemma parse_value_object_empty: "parse_value (Suc n) (CHR ''{'' # CHR ''}'' # r) = Some (JObj [], r)"
  by (simp add: skip_ws_def is_ws_def)

lemma parse_value_array:
  "start_char c \<Longrightarrow> parse_value (Suc n) (CHR ''['' # c # s) =
     (case parse_elems n (c # s) of None \<Rightarrow> None | Some (xs, r') \<Rightarrow> Some (JArr xs, r'))"
  using skip_ws_start [of c s]
  by (auto simp: start_char_def is_digit_def skip_ws_def [of "CHR ''['' # c # s"] is_ws_def)

lemma parse_value_object:
  "start_char c \<Longrightarrow> parse_value (Suc n) (CHR ''{'' # c # s) =
     (case parse_members n (c # s) of None \<Rightarrow> None | Some (xs, r') \<Rightarrow> Some (JObj xs, r'))"
  using skip_ws_start [of c s]
  by (auto simp: start_char_def is_digit_def skip_ws_def [of "CHR ''{'' # c # s"] is_ws_def)

lemma parse_value_number:
  "c = CHR ''-'' \<or> is_digit c \<Longrightarrow> parse_value (Suc n) (c # s) =
     (case parse_number (c # s) of None \<Rightarrow> None | Some (i, r') \<Rightarrow> Some (JNum i, r'))"
proof -
  assume a: "c = CHR ''-'' \<or> is_digit c"
  then have ne: "c \<noteq> CHR ''n''" "c \<noteq> CHR ''t''" "c \<noteq> CHR ''f''" "c \<noteq> dquote"
    "c \<noteq> CHR ''[''" "c \<noteq> CHR ''{''"
    by (auto simp: is_digit_def)
  have "start_char c" using a by (simp add: start_char_def)
  then have "skip_ws (c # s) = c # s" by (rule skip_ws_start)
  then show ?thesis
    by (simp add: ne Let_def)
qed

declare parse_value.simps(2) [simp del] parse_elems.simps(2) [simp del]
  parse_members.simps(2) [simp del]


lemma number_string_start:
  "\<exists>c cs. number_string i = c # cs \<and> (c = CHR ''-'' \<or> is_digit c)"
  using digits_head [of "nat i"] by (auto simp: number_string_def)

lemma stringify_start: "\<exists>c cs. JSON_stringify v = c # cs \<and> start_char c"
proof (cases v)
  case (JNum i)
  then show ?thesis
    using number_string_start [of i] by (auto simp: start_char_def)
qed (auto simp: start_char_def quote_def)

lemma elems_start:
  "xs \<noteq> [] \<Longrightarrow> \<exists>c cs. stringify_elems xs = c # cs \<and> start_char c"
proof (cases xs)
  case (Cons x ys)
  obtain c cs where "JSON_stringify x = c # cs" "start_char c"
    using stringify_start by blast
  then show ?thesis using Cons by (cases ys) auto
qed simp

lemma members_start:
  "kvs \<noteq> [] \<Longrightarrow> \<exists>cs. stringify_members kvs = dquote # cs"
proof (cases kvs)
  case (Cons kv ms)
  then show ?thesis by (cases kv; cases ms) (auto simp: quote_def)
qed simp

lemma delim_simps [simp]:
  "delim (CHR '','' # r)" "delim (CHR '']'' # r)" "delim (CHR ''}'' # r)"
  by (simp_all add: delim_def)

lemma parse_elems_last:
  assumes "parse_value n s = Some (v, CHR '']'' # r)"
  shows "parse_elems (Suc n) s = Some ([v], r)"
  using assms by (simp add: parse_elems.simps(2) skip_ws_punct)

lemma parse_elems_more:
  assumes "parse_value n s = Some (v, CHR '','' # t)" "parse_elems n t = Some (vs, r)"
  shows "parse_elems (Suc n) s = Some (v # vs, r)"
  using assms by (simp add: parse_elems.simps(2) skip_ws_punct)

lemma parse_members_last:
  assumes "parse_value n s = Some (v, CHR ''}'' # r)"
  shows "parse_members (Suc n) (quote k @ CHR '':'' # s) = Some ([(k, v)], r)"
  using assms
  by (simp add: parse_members.simps(2) quote_def skip_ws_start start_char_def
      parse_string_quote skip_ws_punct)

lemma parse_members_more:
  assumes "parse_value n s = Some (v, CHR '','' # t)" "parse_members n t = Some (kvs, r)"
  shows "parse_members (Suc n) (quote k @ CHR '':'' # s) = Some ((k, v) # kvs, r)"
  using assms
  by (simp add: parse_members.simps(2) quote_def skip_ws_start start_char_def
      parse_string_quote skip_ws_punct)

lemma parse_stringify_aux:
  "\<forall>n r. length (JSON_stringify v) \<le> n \<longrightarrow> delim r \<longrightarrow>
      parse_value n (JSON_stringify v @ r) = Some (v, r)"
  "\<forall>n r. xs \<noteq> [] \<longrightarrow> length (stringify_elems xs) < n \<longrightarrow>
      parse_elems n (stringify_elems xs @ CHR '']'' # r) = Some (xs, r)"
  "\<forall>n r. kvs \<noteq> [] \<longrightarrow> length (stringify_members kvs) < n \<longrightarrow>
      parse_members n (stringify_members kvs @ CHR ''}'' # r) = Some (kvs, r)"
proof (induction v and xs and kvs rule: JSON_stringify_stringify_elems_stringify_members.induct)
  case 1
  show ?case
  proof (intro allI impI)
    fix n r assume "length (JSON_stringify JNull) \<le> n"
    then obtain m where "n = Suc m" by (cases n) auto
    then show "parse_value n (JSON_stringify JNull @ r) = Some (JNull, r)"
      using parse_value_null [of m r] by simp
  qed
next
  case (2 b)
  show ?case
  proof (intro allI impI)
    fix n r assume "length (JSON_stringify (JBool b)) \<le> n"
    then obtain m where "n = Suc m" by (cases n) (auto split: if_splits)
    then show "parse_value n (JSON_stringify (JBool b) @ r) = Some (JBool b, r)"
      using parse_value_true [of m r] parse_value_false [of m r] by simp
  qed
next
  case (3 i)
  show ?case
  proof (intro allI impI)
    fix n r assume len: "length (JSON_stringify (JNum i)) \<le> n" and d: "delim r"
    obtain c cs where c: "number_string i = c # cs" "c = CHR ''-'' \<or> is_digit c"
      using number_string_start by blast
    with len obtain m where "n = Suc m" by (cases n) auto
    then show "parse_value n (JSON_stringify (JNum i) @ r) = Some (JNum i, r)"
      using parse_value_number [OF c(2), of m "cs @ r"]
        parse_number_number_string [OF d, of i] c(1) by simp
  qed
next
  case (4 s)
  show ?case
  proof (intro allI impI)
    fix n r assume "length (JSON_stringify (JStr s)) \<le> n"
    then obtain m where "n = Suc m" by (cases n) (auto simp: quote_def)
    then show "parse_value n (JSON_stringify (JStr s) @ r) = Some (JStr s, r)"
      by (simp add: quote_def parse_value_string parse_string_quote)
  qed
next
  case (5 xs)
  show ?case
  proof (intro allI impI)
    fix n r assume len: "length (JSON_stringify (JArr xs)) \<le> n"
    then obtain m where m: "n = Suc m" by (cases n) auto
    show "parse_value n (JSON_stringify (JArr xs) @ r) = Some (JArr xs, r)"
    proof (cases "xs = []")
      case True
      then show ?thesis using m by (simp add: parse_value_array_empty)
    next
      case False
      obtain c cs where c: "stringify_elems xs = c # cs" "start_char c"
        using elems_start [OF False] by blast
      have "length (stringify_elems xs) < m" using len m by simp
      then have "parse_elems m (stringify_elems xs @ CHR '']'' # r) = Some (xs, r)"
        using 5 False by blast
      then show ?thesis
        using m c parse_value_array [OF c(2), of m "cs @ CHR '']'' # r"] by simp
    qed
  qed
next
  case (6 kvs)
  show ?case
  proof (intro allI impI)
    fix n r assume len: "length (JSON_stringify (JObj kvs)) \<le> n"
    then obtain m where m: "n = Suc m" by (cases n) auto
    show "parse_value n (JSON_stringify (JObj kvs) @ r) = Some (JObj kvs, r)"
    proof (cases "kvs = []")
      case True
      then show ?thesis using m by (simp add: parse_value_object_empty)
    next
      case False
      obtain cs where c: "stringify_members kvs = dquote # cs"
        using members_start [OF False] by blast
      have sc: "start_char dquote" by (simp add: start_char_def)
      have "length (stringify_members kvs) < m" using len m by simp
      then have "parse_members m (stringify_members kvs @ CHR ''}'' # r) = Some (kvs, r)"
        using 6 False by blast
      then show ?thesis
        using m c parse_value_object [OF sc, of m "cs @ CHR ''}'' # r"] by simp
    qed
  qed
next
  case 7
  show ?case by simp
next
  case (8 x)
  show ?case
  proof (intro allI impI)
    fix n r assume len: "length (stringify_elems [x]) < n"
    then obtain m where m: "n = Suc m" by (cases n) auto
    have "parse_value m (JSON_stringify x @ CHR '']'' # r) = Some (x, CHR '']'' # r)"
      using 8 len m by simp
    then show "parse_elems n (stringify_elems [x] @ CHR '']'' # r) = Some ([x], r)"
      using m by (simp add: parse_elems_last)
  qed
next
  case (9 x y ys)
  show ?case
  proof (intro allI impI)
    fix n r assume len: "length (stringify_elems (x # y # ys)) < n"
    then obtain m where m: "n = Suc m" by (cases n) auto
    let ?t = "stringify_elems (y # ys) @ CHR '']'' # r"
    have "parse_value m (JSON_stringify x @ CHR '','' # ?t) = Some (x, CHR '','' # ?t)"
      using 9(1) len m by simp
    moreover have "parse_elems m ?t = Some (y # ys, r)"
      using 9(2) len m by simp
    ultimately show "parse_elems n (stringify_elems (x # y # ys) @ CHR '']'' # r)
        = Some (x # y # ys, r)"
      using m by (simp add: parse_elems_more)
  qed
next
  case 10
  show ?case by simp
next
  case (11 k v)
  show ?case
  proof (intro allI impI)
    fix n r assume len: "length (stringify_members [(k, v)]) < n"
    then obtain m where m: "n = Suc m" by (cases n) auto
    have "parse_value m (JSON_stringify v @ CHR ''}'' # r) = Some (v, CHR ''}'' # r)"
      using 11 len m by simp
    then show "parse_members n (stringify_members [(k, v)] @ CHR ''}'' # r) = Some ([(k, v)], r)"
      using m by (simp add: parse_members_last)
  qed
next
  case (12 k v kv ms)
  show ?case
  proof (intro allI impI)
    fix n r assume len: "length (stringify_members ((k, v) # kv # ms)) < n"
    then obtain m where m: "n = Suc m" by (cases n) auto
    let ?t = "stringify_members (kv # ms) @ CHR ''}'' # r"
    have "parse_value m (JSON_stringify v @ CHR '','' # ?t) = Some (v, CHR '','' # ?t)"
      using 12(1) len m by simp
    moreover have "parse_members m ?t = Some (kv # ms, r)"
      using 12(2) len m by simp
    ultimately show "parse_members n (stringify_members ((k, v) # kv # ms) @ CHR ''}'' # r)
        = Some ((k, v) # kv # ms, r)"
      using m by (simp add: parse_members_more)
  qed
qed

lemma JSON_parse_stringify: "JSON_parse (JSON_stringify v) = Some v"
proof -
  have "delim []" by (simp add: delim_def)
  then have "parse_value (Suc (length (JSON_stringify v))) (JSON_stringify v @ []) = Some (v, [])"
    using parse_stringify_aux(1) [rule_format, of v "Suc (length (JSON_stringify v))" "[]"]
    by linarith
  then show ?thesis by (simp add: JSON_parse_def skip_ws_def)
qed

lemma JSON_stringify_inj: "JSON_stringify v = JSON_stringify w \<Longrightarrow> v = w"
  by (metis JSON_parse_stringify option.inject)



section \<open>Dates\<close>

text \<open>
  A \<^verbatim>\<open>Date\<close> is its time value: milliseconds since the epoch, UTC. \<open>toISOString\<close>
  is \<^verbatim>\<open>Date.prototype.toISOString\<close> for a valid date:
  \<^verbatim>\<open>YYYY-MM-DDTHH:mm:ss.sssZ\<close>, the year with a sign and six digits outside 0..9999.
\<close>

type_synonym Date = int

fun pad_digits :: "nat \<Rightarrow> nat \<Rightarrow> string" where
  "pad_digits 0 n = []"
| "pad_digits (Suc k) n = pad_digits k (n div 10) @ [digit_char n]"

definition civil_from_days :: "int \<Rightarrow> int \<times> nat \<times> nat" where
  "civil_from_days z0 =
     (let z = z0 + 719468;
          era = z div 146097;
          doe = z - era * 146097;
          yoe = (doe - doe div 1460 + doe div 36524 - doe div 146096) div 365;
          doy = doe - (365 * yoe + yoe div 4 - yoe div 100);
          mp = (5 * doy + 2) div 153;
          d = doy - (153 * mp + 2) div 5 + 1;
          m = (if mp < 10 then mp + 3 else mp - 9);
          y = yoe + era * 400 + (if m \<le> 2 then 1 else 0)
      in (y, nat m, nat d))"

definition year_string :: "int \<Rightarrow> string" where
  "year_string y =
     (if 0 \<le> y \<and> y \<le> 9999 then pad_digits 4 (nat y)
      else (if y < 0 then CHR ''-'' else CHR ''+'') # pad_digits 6 (nat \<bar>y\<bar>))"

definition toISOString :: "Date \<Rightarrow> string" where
  "toISOString t =
     (let ms = nat (t mod 86400000) in
      case civil_from_days (t div 86400000) of
        (y, m, d) \<Rightarrow>
          year_string y @ CHR ''-'' # pad_digits 2 m @ CHR ''-'' # pad_digits 2 d
            @ CHR ''T'' # pad_digits 2 (ms div 3600000)
            @ CHR '':'' # pad_digits 2 (ms div 60000 mod 60)
            @ CHR '':'' # pad_digits 2 (ms div 1000 mod 60)
            @ CHR ''.'' # pad_digits 3 (ms mod 1000) @ ''Z'')"


section \<open>EnhancedAuditService\<close>

text \<open>
  The table \<^verbatim>\<open>DocumentAuditLog\<close> (the columns \<^verbatim>\<open>type\<close> and \<^verbatim>\<open>data\<close> are
  \<open>log_type\<close> and \<open>log_data\<close> here). A nullable column is an option; the store turns
  an absent value of \<^verbatim>\<open>create\<close> into null. \<^verbatim>\<open>createdAt\<close> is not passed to
  \<^verbatim>\<open>create\<close>: it is the database's \<^verbatim>\<open>now()\<close>, a reading of another clock than the
  \<^verbatim>\<open>new Date()\<close> that goes into the hash.
\<close>

record DocumentAuditLog =
  log_id :: int
  documentId :: int
  userId :: "int option"
  recipientId :: "int option"
  log_type :: string
  log_data :: "string option"
  createdAt :: Date
  ip :: "string option"
  userAgent :: "string option"
  hash :: "string option"

text \<open>The argument of \<^verbatim>\<open>logDocumentEvent\<close>; \<open>None\<close> is a property left undefined.\<close>

record LogDocumentEvent =
  ev_documentId :: int
  ev_userId :: "int option"
  ev_recipientId :: "int option"
  ev_eventType :: string
  ev_data :: "json option"
  ev_ip :: "string option"
  ev_userAgent :: "string option"

text \<open>An object literal: \<^verbatim>\<open>JSON.stringify\<close> leaves out a property that is undefined.\<close>

definition omit_undefined :: "(string \<times> json option) list \<Rightarrow> json" where
  "omit_undefined ps = JObj (List.map_filter (\<lambda>(k, v). map_option (Pair k) v) ps)"

definition nullable :: "('a \<Rightarrow> json) \<Rightarrow> 'a option \<Rightarrow> json" where
  "nullable f v = (case v of None \<Rightarrow> JNull | Some x \<Rightarrow> f x)"

definition createEntryHash :: "json \<Rightarrow> string" where
  "createEntryHash entryData = sha256_hex (JSON_stringify entryData)"

text \<open>\<^verbatim>\<open>entryData\<close> as \<^verbatim>\<open>logDocumentEvent\<close> builds it.\<close>

definition append_entryData :: "LogDocumentEvent \<Rightarrow> Date \<Rightarrow> string \<Rightarrow> json" where
  "append_entryData ev timestamp previousHash =
     omit_undefined
       [(''documentId'', Some (JNum (ev_documentId ev))),
        (''userId'', map_option JNum (ev_userId ev)),
        (''recipientId'', map_option JNum (ev_recipientId ev)),
        (''eventType'', Some (JStr (ev_eventType ev))),
        (''data'', Some (case ev_data ev of None \<Rightarrow> JNull | Some d \<Rightarrow> JStr (JSON_stringify d))),
        (''timestamp'', Some (JStr (toISOString timestamp))),
        (''ip'', map_option JStr (ev_ip ev)),
        (''userAgent'', map_option JStr (ev_userAgent ev)),
        (''previousHash'', Some (JStr previousHash))]"

text \<open>\<^verbatim>\<open>entryData\<close> as \<^verbatim>\<open>verifyAuditTrailIntegrity\<close> rebuilds it from a stored row.\<close>

definition stored_entryData :: "DocumentAuditLog \<Rightarrow> string \<Rightarrow> json" where
  "stored_entryData row previousHash =
     JObj
       [(''documentId'', JNum (documentId row)),
        (''userId'', nullable JNum (userId row)),
        (''recipientId'', nullable JNum (recipientId row)),
        (''eventType'', JStr (log_type row)),
        (''data'', nullable JStr (log_data row)),
        (''timestamp'', JStr (toISOString (createdAt row))),
        (''ip'', nullable JStr (ip row)),
        (''userAgent'', nullable JStr (userAgent row)),
        (''previousHash'', JStr previousHash)]"

text \<open>
  The two queries. Rows of equal \<^verbatim>\<open>createdAt\<close> come in insertion order (the database
  promises no order among them); descending is the reverse of that.
\<close>

definition findMany_asc :: "DocumentAuditLog list \<Rightarrow> int \<Rightarrow> DocumentAuditLog list" where
  "findMany_asc rows d = sort_key createdAt (filter (\<lambda>r. documentId r = d) rows)"

definition findFirst_desc :: "DocumentAuditLog list \<Rightarrow> int \<Rightarrow> DocumentAuditLog option" where
  "findFirst_desc rows d = (case rev (findMany_asc rows d) of [] \<Rightarrow> None | r # _ \<Rightarrow> Some r)"

definition next_log_id :: "DocumentAuditLog list \<Rightarrow> int" where
  "next_log_id rows = foldr (\<lambda>r n. max (log_id r) n) rows 0 + 1"

text \<open>
  \<open>timestamp\<close> is the reading of \<^verbatim>\<open>new Date()\<close>, \<open>dbNow\<close> the value the database
  gives \<^verbatim>\<open>createdAt\<close>.
\<close>

definition logDocumentEvent ::
  "Date \<Rightarrow> Date \<Rightarrow> LogDocumentEvent \<Rightarrow> DocumentAuditLog list
     \<Rightarrow> DocumentAuditLog \<times> DocumentAuditLog list" where
  "logDocumentEvent timestamp dbNow ev rows =
     (let previousHash =
            (case findFirst_desc rows (ev_documentId ev) of
               None \<Rightarrow> []
             | Some previousEntry \<Rightarrow> (case hash previousEntry of None \<Rightarrow> [] | Some h \<Rightarrow> h));
          h = createEntryHash (append_entryData ev timestamp previousHash);
          auditLog =
            \<lparr>log_id = next_log_id rows, documentId = ev_documentId ev, userId = ev_userId ev,
             recipientId = ev_recipientId ev, log_type = ev_eventType ev,
             log_data = map_option JSON_stringify (ev_data ev), createdAt = dbNow,
             ip = ev_ip ev, userAgent = ev_userAgent ev, hash = Some h\<rparr>
      in (auditLog, rows @ [auditLog]))"

text \<open>The loop of \<^verbatim>\<open>verifyAuditTrailIntegrity\<close>, from a given \<^verbatim>\<open>previousHash\<close>.\<close>

fun verify_from :: "string \<Rightarrow> DocumentAuditLog list \<Rightarrow> bool" where
  "verify_from previousHash [] = True"
| "verify_from previousHash (row # logs) =
     (let calculatedHash = createEntryHash (stored_entryData row previousHash) in
      case hash row of
        None \<Rightarrow> False
      | Some h \<Rightarrow> if h \<noteq> calculatedHash then False else verify_from h logs)"

definition verifyAuditTrailIntegrity :: "DocumentAuditLog list \<Rightarrow> bool" where
  "verifyAuditTrailIntegrity auditLogs =
     (if auditLogs = [] then True else verify_from [] auditLogs)"

datatype error = NOT_FOUND | BAD_REQUEST

text \<open>
  \<open>canAccess\<close> stands for the document query at the head of
  \<^verbatim>\<open>getDocumentAuditTrail\<close>: whether the user owns the document or is in its team.
\<close>

definition getDocumentAuditTrail ::
  "(int \<Rightarrow> int \<Rightarrow> bool) \<Rightarrow> DocumentAuditLog list \<Rightarrow> int \<Rightarrow> int
     \<Rightarrow> error + DocumentAuditLog list \<times> bool" where
  "getDocumentAuditTrail canAccess rows docId uid =
     (if \<not> canAccess docId uid then Inl NOT_FOUND
      else
        (let auditLogs = findMany_asc rows docId;
             isValid = verifyAuditTrailIntegrity auditLogs
         in Inr (auditLogs, isValid)))"

text \<open>The previous hash that the loop holds after a prefix it has accepted.\<close>

definition chain_hash :: "DocumentAuditLog list \<Rightarrow> string" where
  "chain_hash pre =
     (if pre = [] then [] else (case hash (last pre) of None \<Rightarrow> [] | Some h \<Rightarrow> h))"

text \<open>What of a row goes into its hash, the timestamp as it is rendered.\<close>

definition hashed_fields ::
  "DocumentAuditLog \<Rightarrow> int \<times> int option \<times> int option \<times> string \<times> string option \<times> string
     \<times> string option \<times> string option" where
  "hashed_fields r =
     (documentId r, userId r, recipientId r, log_type r, log_data r,
      toISOString (createdAt r), ip r, userAgent r)"

text \<open>
  One stored field of a row changed: the stored hash and nothing that is hashed, or
  something that is hashed and not the stored hash.
\<close>

definition tampered :: "DocumentAuditLog \<Rightarrow> DocumentAuditLog \<Rightarrow> bool" where
  "tampered e e' =
     (if hash e' = hash e then hashed_fields e' \<noteq> hashed_fields e
      else hashed_fields e' = hashed_fields e)"

definition sha256_collision :: "string \<Rightarrow> string \<Rightarrow> bool" where
  "sha256_collision a b = (a \<noteq> b \<and> sha256_hex a = sha256_hex b)"

section \<open>WebhookService\<close>

text \<open>
  The tables \<^verbatim>\<open>Webhook\<close>, \<^verbatim>\<open>WebhookDelivery\<close> and \<^verbatim>\<open>WebhookRetry\<close> of the Prisma
  schema, with the columns the service reads or writes (the fields of each record carry
  a prefix where two tables share a column name). \<^verbatim>\<open>axios.post\<close> either resolves
  with a response or rejects with an error that may carry one. The state passed through
  the service is the three tables, the counter behind \<^verbatim>\<open>WebhookRetry.id\<close>, and the
  list of the HTTP requests issued so far. The store does not fail. The callbacks that
  \<^verbatim>\<open>Promise.allSettled\<close> runs concurrently are run one after the other, in list order;
  one call of the service reads the clock once (\<open>now\<close>).
\<close>

datatype WebhookEventType =
    DOCUMENT_CREATED | DOCUMENT_UPDATED | DOCUMENT_COMPLETED | DOCUMENT_DELETED
  | RECIPIENT_VIEWED | RECIPIENT_COMPLETED | FORM_SUBMITTED | USER_CREATED | USER_UPDATED

fun event_string :: "WebhookEventType \<Rightarrow> string" where
  "event_string DOCUMENT_CREATED = ''document.created''"
| "event_string DOCUMENT_UPDATED = ''document.updated''"
| "event_string DOCUMENT_COMPLETED = ''document.completed''"
| "event_string DOCUMENT_DELETED = ''document.deleted''"
| "event_string RECIPIENT_VIEWED = ''recipient.viewed''"
| "event_string RECIPIENT_COMPLETED = ''recipient.completed''"
| "event_string FORM_SUBMITTED = ''form.submitted''"
| "event_string USER_CREATED = ''user.created''"
| "event_string USER_UPDATED = ''user.updated''"

record WebhookPayload =
  payload_id :: string
  payload_event :: string
  payload_createdAt :: string
  payload_data :: json

definition payload_json :: "WebhookPayload \<Rightarrow> json" where
  "payload_json p =
     JObj [(''id'', JStr (payload_id p)), (''event'', JStr (payload_event p)),
           (''createdAt'', JStr (payload_createdAt p)), (''data'', payload_data p)]"

text \<open>
  The value of \<^verbatim>\<open>JSON.parse(retry.payload)\<close> read as a \<^verbatim>\<open>WebhookPayload\<close>. The
  only writer of \<^verbatim>\<open>WebhookRetry.payload\<close> is \<^verbatim>\<open>addToRetryQueue\<close>, which stores the
  text of an envelope; a text of another shape is treated like one that does not parse.
\<close>

definition payload_of_json :: "json \<Rightarrow> WebhookPayload option" where
  "payload_of_json j =
     (case j of
        JObj [(k1, JStr i), (k2, JStr e), (k3, JStr c), (k4, d)] \<Rightarrow>
          if k1 = ''id'' \<and> k2 = ''event'' \<and> k3 = ''createdAt'' \<and> k4 = ''data''
          then Some \<lparr>payload_id = i, payload_event = e, payload_createdAt = c, payload_data = d\<rparr>
          else None
      | _ \<Rightarrow> None)"

record Webhook =
  webhook_id :: int
  url :: string
  events :: "string list"
  secret :: string
  isActive :: bool
  teamId :: "int option"

record WebhookDelivery =
  d_webhookId :: int
  d_deliveryId :: string
  d_success :: bool
  d_statusCode :: int
  d_statusText :: string

record WebhookRetry =
  retry_id :: int
  r_webhookId :: int
  r_payload :: string
  retryCount :: int
  nextRetryAt :: Date
  lastError :: "string option"

record HttpRequest =
  req_url :: string
  req_body :: string
  req_signature :: string
  req_event :: string
  req_delivery :: string
  req_retry_count :: "string option"

record HttpResponse =
  status :: int
  statusText :: string

record AxiosError =
  response :: "HttpResponse option"
  message :: string

datatype AxiosResult = Resolved HttpResponse | Rejected AxiosError

text \<open>The transport: the answer to a request, given how many requests went out before it.\<close>

type_synonym transport = "nat \<Rightarrow> HttpRequest \<Rightarrow> AxiosResult"

record world =
  webhooks :: "Webhook list"
  deliveries :: "WebhookDelivery list"
  retries :: "WebhookRetry list"
  retrySeq :: int
  sent :: "HttpRequest list"

record TriggerResult =
  res_webhookId :: int
  res_success :: bool
  res_statusCode :: int
  res_error :: "string option"

record RetryResult =
  res_retryId :: int
  rr_success :: bool
  rr_statusCode :: "int option"
  rr_error :: "string option"
  rr_reason :: "string option"
  rr_retryCount :: "int option"

record 'r Summary =
  success :: bool
  count :: nat
  results :: "'r list option"

definition createSignature :: "string \<Rightarrow> string \<Rightarrow> string" where
  "createSignature sec payload = hex (hmac_sha256 sec payload)"

definition shouldRetry :: "int \<Rightarrow> bool" where
  "shouldRetry statusCode =
     (statusCode = 0 \<or> statusCode \<ge> 500 \<or> statusCode = 429 \<or> statusCode = 408)"

definition delayMinutes :: "int \<Rightarrow> int" where
  "delayMinutes n = (if 0 \<le> n \<and> n < 5 then [1, 5, 15, 30, 60] ! nat n else 60)"

definition calculateNextRetryTime :: "Date \<Rightarrow> int \<Rightarrow> Date" where
  "calculateNextRetryTime now n = now + delayMinutes n * 60000"

text \<open>\<^verbatim>\<open>error.response?.status || 0\<close> and \<^verbatim>\<open>error.response?.statusText || error.message\<close>.\<close>

definition error_statusCode :: "AxiosError \<Rightarrow> int" where
  "error_statusCode e = (case response e of None \<Rightarrow> 0 | Some r \<Rightarrow> if status r = 0 then 0 else status r)"

definition error_statusText :: "AxiosError \<Rightarrow> string" where
  "error_statusText e =
     (case response e of
        None \<Rightarrow> message e
      | Some r \<Rightarrow> if statusText r = [] then message e else statusText r)"

definition logWebhookDelivery :: "int \<Rightarrow> string \<Rightarrow> bool \<Rightarrow> int \<Rightarrow> string \<Rightarrow> world \<Rightarrow> world" where
  "logWebhookDelivery webhookId deliveryId ok statusCode stText w =
     w\<lparr>deliveries := deliveries w @
         [\<lparr>d_webhookId = webhookId, d_deliveryId = deliveryId, d_success = ok,
           d_statusCode = statusCode, d_statusText = stText\<rparr>]\<rparr>"

definition addToRetryQueue :: "Date \<Rightarrow> int \<Rightarrow> WebhookPayload \<Rightarrow> world \<Rightarrow> world" where
  "addToRetryQueue now webhookId payload w =
     w\<lparr>retries := retries w @
         [\<lparr>retry_id = retrySeq w, r_webhookId = webhookId,
           r_payload = JSON_stringify (payload_json payload), retryCount = 0,
           nextRetryAt = calculateNextRetryTime now 0, lastError = None\<rparr>],
       retrySeq := retrySeq w + 1\<rparr>"

definition post :: "transport \<Rightarrow> HttpRequest \<Rightarrow> world \<Rightarrow> AxiosResult \<times> world" where
  "post http req w = (http (length (sent w)) req, w\<lparr>sent := sent w @ [req]\<rparr>)"

text \<open>
  The request of an initial attempt. The signature is taken over
  \<^verbatim>\<open>JSON.stringify(payload)\<close>; axios serialises the object it is given with
  \<^verbatim>\<open>JSON.stringify\<close> as well, which is the body.
\<close>

definition initial_request :: "WebhookEventType \<Rightarrow> WebhookPayload \<Rightarrow> Webhook \<Rightarrow> HttpRequest" where
  "initial_request event payload webhook =
     \<lparr>req_url = url webhook, req_body = JSON_stringify (payload_json payload),
      req_signature = createSignature (secret webhook) (JSON_stringify (payload_json payload)),
      req_event = event_string event, req_delivery = payload_id payload,
      req_retry_count = None\<rparr>"

text \<open>The callback of \<^verbatim>\<open>webhooks.map\<close> in \<^verbatim>\<open>triggerWebhooks\<close>: one initial attempt.\<close>

definition deliver ::
  "transport \<Rightarrow> Date \<Rightarrow> WebhookEventType \<Rightarrow> WebhookPayload \<Rightarrow> Webhook \<Rightarrow> world
     \<Rightarrow> TriggerResult \<times> world" where
  "deliver http now event payload webhook w =
     (case post http (initial_request event payload webhook) w of
        (Resolved resp, w1) \<Rightarrow>
          (\<lparr>res_webhookId = webhook_id webhook, res_success = True,
            res_statusCode = status resp, res_error = None\<rparr>,
           logWebhookDelivery (webhook_id webhook) (payload_id payload) True
             (status resp) (statusText resp) w1)
      | (Rejected err, w1) \<Rightarrow>
          (let statusCode = error_statusCode err;
               stText = error_statusText err;
               w2 = logWebhookDelivery (webhook_id webhook) (payload_id payload) False
                      statusCode stText w1;
               w3 = (if shouldRetry statusCode
                     then addToRetryQueue now (webhook_id webhook) payload w2 else w2)
           in (\<lparr>res_webhookId = webhook_id webhook, res_success = False,
                res_statusCode = statusCode, res_error = Some stText\<rparr>, w3)))"

fun deliver_all ::
  "transport \<Rightarrow> Date \<Rightarrow> WebhookEventType \<Rightarrow> WebhookPayload \<Rightarrow> Webhook list \<Rightarrow> world
     \<Rightarrow> TriggerResult list \<times> world" where
  "deliver_all http now event payload [] w = ([], w)"
| "deliver_all http now event payload (wh # whs) w =
     (case deliver http now event payload wh w of
        (r, w1) \<Rightarrow>
          (case deliver_all http now event payload whs w1 of
             (rs, w2) \<Rightarrow> (r # rs, w2)))"

text \<open>The \<^verbatim>\<open>where\<close> of the query in \<^verbatim>\<open>triggerWebhooks\<close>; a team id of 0 is falsy.\<close>

definition subscribed :: "WebhookEventType \<Rightarrow> int option \<Rightarrow> Webhook \<Rightarrow> bool" where
  "subscribed event team wh =
     (isActive wh \<and> event_string event \<in> set (events wh)
      \<and> (case team of None \<Rightarrow> True | Some t \<Rightarrow> if t = 0 then True else teamId wh = Some t))"

definition triggerWebhooks ::
  "transport \<Rightarrow> Date \<Rightarrow> string \<Rightarrow> WebhookEventType \<Rightarrow> json \<Rightarrow> int option \<Rightarrow> world
     \<Rightarrow> TriggerResult Summary \<times> world" where
  "triggerWebhooks http now newId event dat team w =
     (let whs = filter (subscribed event team) (webhooks w) in
      if whs = [] then (\<lparr>success = True, count = 0, results = None\<rparr>, w)
      else
        (let payload = \<lparr>payload_id = newId, payload_event = event_string event,
                        payload_createdAt = toISOString now, payload_data = dat\<rparr>
         in case deliver_all http now event payload whs w of
              (rs, w1) \<Rightarrow> (\<lparr>success = True, count = length whs, results = Some rs\<rparr>, w1)))"

definition delete_retry :: "int \<Rightarrow> world \<Rightarrow> world" where
  "delete_retry rid w = w\<lparr>retries := filter (\<lambda>r. retry_id r \<noteq> rid) (retries w)\<rparr>"

definition update_retry :: "int \<Rightarrow> (WebhookRetry \<Rightarrow> WebhookRetry) \<Rightarrow> world \<Rightarrow> world" where
  "update_retry rid f w = w\<lparr>retries := map (\<lambda>r. if retry_id r = rid then f r else r) (retries w)\<rparr>"

text \<open>The \<^verbatim>\<open>catch\<close> block of the callback in \<^verbatim>\<open>processRetryQueue\<close>.\<close>

definition retry_failed :: "Date \<Rightarrow> WebhookRetry \<Rightarrow> AxiosError \<Rightarrow> world \<Rightarrow> RetryResult \<times> world" where
  "retry_failed now retry err w =
     (let statusCode = error_statusCode err;
          stText = error_statusText err;
          newRetryCount = retryCount retry + 1;
          w1 = (if newRetryCount \<ge> 5 \<or> \<not> shouldRetry statusCode
                then delete_retry (retry_id retry) w
                else update_retry (retry_id retry)
                       (\<lambda>r. r\<lparr>retryCount := newRetryCount,
                               nextRetryAt := calculateNextRetryTime now newRetryCount,
                               lastError := Some stText\<rparr>) w)
      in (\<lparr>res_retryId = retry_id retry, rr_success = False, rr_statusCode = Some statusCode,
           rr_error = Some stText, rr_reason = None, rr_retryCount = Some newRetryCount\<rparr>, w1))"

definition syntax_error :: AxiosError where
  "syntax_error = \<lparr>response = None, message = ''Unexpected token in JSON''\<rparr>"

text \<open>The callback of \<^verbatim>\<open>retries.map\<close> in \<^verbatim>\<open>processRetryQueue\<close>: one retry attempt.\<close>

definition retry_inactive :: "WebhookRetry \<Rightarrow> world \<Rightarrow> RetryResult \<times> world" where
  "retry_inactive retry w =
     (\<lparr>res_retryId = retry_id retry, rr_success = False, rr_statusCode = None,
       rr_error = None, rr_reason = Some ''Webhook no longer active'', rr_retryCount = None\<rparr>,
      delete_retry (retry_id retry) w)"

text \<open>
  The request of a retry. The signature is taken over the stored text
  \<^verbatim>\<open>retry.payload\<close>; the body is what axios makes of the parsed value.
\<close>

definition retry_request :: "Webhook \<Rightarrow> WebhookRetry \<Rightarrow> json \<Rightarrow> WebhookPayload \<Rightarrow> HttpRequest" where
  "retry_request webhook retry j payload =
     \<lparr>req_url = url webhook, req_body = JSON_stringify j,
      req_signature = createSignature (secret webhook) (r_payload retry),
      req_event = payload_event payload, req_delivery = payload_id payload,
      req_retry_count = Some (number_string (retryCount retry))\<rparr>"

definition retry_attempt ::
  "transport \<Rightarrow> Date \<Rightarrow> WebhookRetry \<Rightarrow> Webhook \<Rightarrow> world \<Rightarrow> RetryResult \<times> world" where
  "retry_attempt http now retry webhook w =
     (case JSON_parse (r_payload retry) of
        None \<Rightarrow> retry_failed now retry syntax_error w
      | Some j \<Rightarrow>
          (case payload_of_json j of
             None \<Rightarrow> retry_failed now retry syntax_error w
           | Some payload \<Rightarrow>
               (case post http (retry_request webhook retry j payload) w of
                  (Resolved resp, w1) \<Rightarrow>
                    (\<lparr>res_retryId = retry_id retry, rr_success = True,
                      rr_statusCode = Some (status resp), rr_error = None,
                      rr_reason = None, rr_retryCount = None\<rparr>,
                     delete_retry (retry_id retry)
                       (logWebhookDelivery (webhook_id webhook) (payload_id payload) True
                          (status resp) (statusText resp) w1))
                | (Rejected err, w1) \<Rightarrow> retry_failed now retry err w1)))"

definition process_retry :: "transport \<Rightarrow> Date \<Rightarrow> WebhookRetry \<Rightarrow> world \<Rightarrow> RetryResult \<times> world" where
  "process_retry http now retry w =
     (case find (\<lambda>wh. webhook_id wh = r_webhookId retry) (webhooks w) of
        None \<Rightarrow> retry_inactive retry w
      | Some webhook \<Rightarrow>
          if \<not> isActive webhook then retry_inactive retry w
          else retry_attempt http now retry webhook w)"

fun process_all :: "transport \<Rightarrow> Date \<Rightarrow> WebhookRetry list \<Rightarrow> world \<Rightarrow> RetryResult list \<times> world" where
  "process_all http now [] w = ([], w)"
| "process_all http now (r # rs) w =
     (case process_retry http now r w of
        (x, w1) \<Rightarrow> (case process_all http now rs w1 of (xs, w2) \<Rightarrow> (x # xs, w2)))"

definition due :: "Date \<Rightarrow> WebhookRetry \<Rightarrow> bool" where
  "due now r = (nextRetryAt r \<le> now \<and> retryCount r < 5)"

definition processRetryQueue :: "transport \<Rightarrow> Date \<Rightarrow> world \<Rightarrow> RetryResult Summary \<times> world" where
  "processRetryQueue http now w =
     (let rs = filter (due now) (retries w) in
      if rs = [] then (\<lparr>success = True, count = 0, results = None\<rparr>, w)
      else
        (case process_all http now rs w of
           (xs, w1) \<Rightarrow> (\<lparr>success = True, count = length rs, results = Some xs\<rparr>, w1)))"


subsection \<open>A subscription, an envelope and a queued retry\<close>

text \<open>Concrete rows for the closed statements below.\<close>

definition ex_webhook :: Webhook where
  "ex_webhook = \<lparr>webhook_id = 1, url = ''https://example.test/hook'',
     events = [''document.completed''], secret = ''s3cret'', isActive = True, teamId = None\<rparr>"

definition ex_payload :: WebhookPayload where
  "ex_payload = \<lparr>payload_id = ''wh_01'', payload_event = ''document.completed'',
     payload_createdAt = toISOString 1704067200000, payload_data = JObj [(''documentId'', JNum 7)]\<rparr>"

definition ex_retry :: "int \<Rightarrow> WebhookRetry" where
  "ex_retry n = \<lparr>retry_id = 1, r_webhookId = 1,
     r_payload = JSON_stringify (payload_json ex_payload), retryCount = n,
     nextRetryAt = 1704067260000, lastError = None\<rparr>"

definition ex_world :: "int \<Rightarrow> world" where
  "ex_world n = \<lparr>webhooks = [ex_webhook], deliveries = [], retries = [ex_retry n],
     retrySeq = 2, sent = []\<rparr>"

definition ex_error :: "int \<Rightarrow> AxiosError" where
  "ex_error c = \<lparr>response = Some \<lparr>status = c, statusText = ''Error''\<rparr>,
     message = ''Request failed''\<rparr>"

definition ex_http :: "int \<Rightarrow> transport" where
  "ex_http c n req = Rejected (ex_error c)"


definition ex_inactive_world :: world where
  "ex_inactive_world = (ex_world 0)\<lparr>webhooks := [ex_webhook\<lparr>isActive := False\<rparr>]\<rparr>"

definition ex_orphan_world :: world where
  "ex_orphan_world = (ex_world 0)\<lparr>webhooks := []\<rparr>"

section \<open>Properties of the retry queue\<close>

lemma payload_of_json_payload_json: "payload_of_json (payload_json p) = Some p"
  by (simp add: payload_of_json_def payload_json_def)














lemma deliver_all_ids:
  "map res_webhookId (fst (deliver_all http now event payload whs w)) = map webhook_id whs"
proof (induction whs arbitrary: w)
  case Nil
  then show ?case by simp
next
  case (Cons wh whs)
  have "res_webhookId (fst (deliver http now event payload wh w)) = webhook_id wh"
    by (simp add: deliver_def post_def Let_def split: AxiosResult.splits)
  then show ?case
    using Cons.IH by (simp split: prod.splits) (metis fst_conv)
qed


text \<open>
  Claim C7. For every transport, \<open>triggerWebhooks\<close> returns a summary whose
  \<open>success\<close> is true and whose \<open>count\<close> is the number of active subscriptions that
  match; with none matching it carries no result list and the state is the one it was
  given; otherwise the result list has one outcome for each matching subscription, in
  order. No delivery failure reaches the caller: the function has no error result.
\<close>

theorem trigger_never_fails:
  "success (fst (triggerWebhooks http now newId event dat team w)) = True
   \<and> count (fst (triggerWebhooks http now newId event dat team w))
       = length (filter (subscribed event team) (webhooks w))
   \<and> (case results (fst (triggerWebhooks http now newId event dat team w)) of
         None \<Rightarrow>
           filter (subscribed event team) (webhooks w) = []
           \<and> snd (triggerWebhooks http now newId event dat team w) = w
       | Some rs \<Rightarrow>
           filter (subscribed event team) (webhooks w) \<noteq> []
           \<and> map res_webhookId rs = map webhook_id (filter (subscribed event team) (webhooks w)))"
proof (cases "filter (subscribed event team) (webhooks w) = []")
  case True
  then show ?thesis by (simp add: triggerWebhooks_def)
next
  case False
  let ?p = "\<lparr>payload_id = newId, payload_event = event_string event,
             payload_createdAt = toISOString now, payload_data = dat\<rparr>"
  let ?whs = "filter (subscribed event team) (webhooks w)"
  obtain rs w1 where d: "deliver_all http now event ?p ?whs w = (rs, w1)"
    by (cases "deliver_all http now event ?p ?whs w")
  have "map res_webhookId rs = map webhook_id ?whs"
    using deliver_all_ids [of http now event ?p ?whs w] d by simp
  then show ?thesis
    using False d by (simp add: triggerWebhooks_def Let_def)
qed


text \<open>
  Claim C9. A retry task whose subscription is missing or inactive: the task is deleted,
  no request is issued, no delivery record is written, and nothing else changes.
\<close>

theorem inactive_subscription_drops_task:
  assumes "case find (\<lambda>wh. webhook_id wh = r_webhookId retry) (webhooks w) of
             None \<Rightarrow> True | Some wh \<Rightarrow> \<not> isActive wh"
  shows "sent (snd (process_retry http now retry w)) = sent w
       \<and> deliveries (snd (process_retry http now retry w)) = deliveries w
       \<and> webhooks (snd (process_retry http now retry w)) = webhooks w
       \<and> retrySeq (snd (process_retry http now retry w)) = retrySeq w
       \<and> retries (snd (process_retry http now retry w))
           = filter (\<lambda>r. retry_id r \<noteq> retry_id retry) (retries w)"
  using assms
  by (simp add: process_retry_def retry_inactive_def delete_retry_def split: option.splits)


theorem inactive_subscription_drops_task_witness:
  "find (\<lambda>wh. webhook_id wh = r_webhookId (ex_retry 0)) (webhooks ex_inactive_world)
     = Some (ex_webhook\<lparr>isActive := False\<rparr>)
   \<and> find (\<lambda>wh. webhook_id wh = r_webhookId (ex_retry 0)) (webhooks ex_orphan_world) = None
   \<and> snd (process_retry (ex_http 503) 1704067300000 (ex_retry 0) ex_inactive_world)
       = ex_inactive_world\<lparr>retries := []\<rparr>
   \<and> snd (process_retry (ex_http 503) 1704067300000 (ex_retry 0) ex_orphan_world)
       = ex_orphan_world\<lparr>retries := []\<rparr>"
proof -
  have a: "find (\<lambda>wh. webhook_id wh = r_webhookId (ex_retry 0)) (webhooks ex_inactive_world)
     = Some (ex_webhook\<lparr>isActive := False\<rparr>)"
    by (simp add: ex_inactive_world_def ex_world_def ex_retry_def ex_webhook_def)
  have b: "find (\<lambda>wh. webhook_id wh = r_webhookId (ex_retry 0)) (webhooks ex_orphan_world) = None"
    by (simp add: ex_orphan_world_def ex_world_def)
  have c: "snd (process_retry (ex_http 503) 1704067300000 (ex_retry 0) ex_inactive_world)
       = ex_inactive_world\<lparr>retries := []\<rparr>"
    using inactive_subscription_drops_task
      [of "ex_retry 0" ex_inactive_world "ex_http 503" 1704067300000] a
    by (simp add: ex_inactive_world_def ex_world_def ex_retry_def world.equality)
  have d: "snd (process_retry (ex_http 503) 1704067300000 (ex_retry 0) ex_orphan_world)
       = ex_orphan_world\<lparr>retries := []\<rparr>"
    using inactive_subscription_drops_task
      [of "ex_retry 0" ex_orphan_world "ex_http 503" 1704067300000] b
    by (simp add: ex_orphan_world_def ex_world_def ex_retry_def world.equality)
  show ?thesis using a b c d by blast
qed

lemma retry_failed_deliveries:
  "deliveries (snd (retry_failed now retry err w)) = deliveries w"
  by (simp add: retry_failed_def Let_def delete_retry_def update_retry_def)

lemma retry_failed_sent:
  "sent (snd (retry_failed now retry err w)) = sent w"
  by (simp add: retry_failed_def Let_def delete_retry_def update_retry_def)

lemma ex_process_retry:
  "process_retry (ex_http c) now (ex_retry n) (ex_world n) =
     retry_failed now (ex_retry n) (ex_error c)
       ((ex_world n)\<lparr>sent := [retry_request ex_webhook (ex_retry n) (payload_json ex_payload) ex_payload]\<rparr>)"
proof -
  have f: "find (\<lambda>wh. webhook_id wh = r_webhookId (ex_retry n)) (webhooks (ex_world n)) = Some ex_webhook"
    by (simp add: ex_world_def ex_retry_def ex_webhook_def)
  have a: "isActive ex_webhook" by (simp add: ex_webhook_def)
  have p: "JSON_parse (r_payload (ex_retry n)) = Some (payload_json ex_payload)"
    by (simp add: ex_retry_def JSON_parse_stringify)
  have s: "sent (ex_world n) = []" by (simp add: ex_world_def)
  show ?thesis
    by (simp add: process_retry_def f a retry_attempt_def p payload_of_json_payload_json
        post_def ex_http_def s)
qed


text \<open>
  Claim C2. The claim asks for one delivery record for every attempt. A retry attempt
  that is rejected writes none: the catch block of \<open>processRetryQueue\<close> computes the
  status and the text and never calls \<open>logWebhookDelivery\<close>. Here a due task is
  retried, the endpoint answers 503, one request has gone out and the delivery table
  is still empty; the initial path writes its record for the same answer.
\<close>

theorem failed_retry_writes_no_delivery:
  "deliveries (snd (processRetryQueue (ex_http 503) 1704067300000 (ex_world 0))) = []
   \<and> length (sent (snd (processRetryQueue (ex_http 503) 1704067300000 (ex_world 0)))) = 1
   \<and> deliveries (snd (deliver (ex_http 503) 1704067200000 DOCUMENT_COMPLETED ex_payload
          ex_webhook (ex_world 0)))
       = [\<lparr>d_webhookId = 1, d_deliveryId = ''wh_01'', d_success = False,
           d_statusCode = 503, d_statusText = ''Error''\<rparr>]"
proof -
  have d: "filter (due 1704067300000) (retries (ex_world 0)) = [ex_retry 0]"
    by (simp add: due_def ex_world_def ex_retry_def)
  have q: "snd (processRetryQueue (ex_http 503) 1704067300000 (ex_world 0))
         = snd (process_retry (ex_http 503) 1704067300000 (ex_retry 0) (ex_world 0))"
    by (simp add: processRetryQueue_def d split: prod.splits)
  have a: "deliveries (snd (processRetryQueue (ex_http 503) 1704067300000 (ex_world 0))) = []"
    unfolding q ex_process_retry retry_failed_deliveries by (simp add: ex_world_def)
  have b: "length (sent (snd (processRetryQueue (ex_http 503) 1704067300000 (ex_world 0)))) = 1"
    unfolding q ex_process_retry retry_failed_sent by simp
  have c: "deliveries (snd (deliver (ex_http 503) 1704067200000 DOCUMENT_COMPLETED ex_payload
          ex_webhook (ex_world 0)))
       = [\<lparr>d_webhookId = 1, d_deliveryId = ''wh_01'', d_success = False,
           d_statusCode = 503, d_statusText = ''Error''\<rparr>]"
    by (simp add: deliver_def post_def ex_http_def ex_error_def error_statusCode_def
        error_statusText_def shouldRetry_def logWebhookDelivery_def addToRetryQueue_def Let_def
        ex_world_def ex_webhook_def ex_payload_def)
  show ?thesis using a b c by blast
qed


subsection \<open>Signatures\<close>




















end
